theory Spec2Isabelle
  imports Complex_Main "HOL-Library.Word"
begin

section \<open>The mini-ImageNet dataset loader\<close>

text \<open>
  Source: \<^verbatim>\<open>src/learn2learn/vision/datasets/mini_imagenet.py\<close>.
  Python exceptions are values: a function that can raise returns \<open>error + 'a\<close>, with
  \<open>Inl\<close> for the exception. An exception is its class, with the message where the
  source gives one; \<open>OtherError\<close> carries the class name of any exception not listed.
  A call into the Python library may raise any of them.
\<close>

datatype error =
    ValueError string
  | KeyError string
  | IndexError
  | TypeError string
  | FileNotFoundError
  | FileExistsError
  | NotADirectoryError
  | PermissionError
  | UnpicklingError
  | EOFError
  | OtherError string

subsection \<open>index_classes\<close>

text \<open>
  \<^verbatim>\<open>
  def index_classes(items):
      idx = {}
      for i in items:
          if (i not in idx):
              idx[i] = len(idx)
      return idx
  \<close>
  The dictionary \<open>idx\<close> is an association list in insertion order, as a Python dictionary
  is; its keys are distinct because a key is only stored when it is not yet there.
  \<open>i not in idx\<close> is \<open>map_of idx i = None\<close>, \<open>len(idx)\<close> is the length of the list, and
  a store under a new key appends. The loop is a recursion with the dictionary as its
  accumulator. Items are hashable values; two items are the same key when they are
  equal.
\<close>

type_synonym ('k, 'v) dict = "('k \<times> 'v) list"

fun index_classes_loop :: "'a list \<Rightarrow> ('a, nat) dict \<Rightarrow> ('a, nat) dict" where
  "index_classes_loop [] idx = idx"
| "index_classes_loop (i # items) idx =
     index_classes_loop items
       (if map_of idx i = None then idx @ [(i, length idx)] else idx)"

definition index_classes :: "'a list \<Rightarrow> ('a, nat) dict" where
  "index_classes items = index_classes_loop items []"

text \<open>
  Two notions the properties of \<open>index_classes\<close> are stated with: the position at which an
  item first occurs in the sequence, and the number of distinct items that occur before
  that position (the rank of the first occurrence among the distinct items).
\<close>

definition first_pos :: "'a \<Rightarrow> 'a list \<Rightarrow> nat" where
  "first_pos a items = length (takeWhile (\<lambda>b. b \<noteq> a) items)"

definition first_rank :: "'a \<Rightarrow> 'a list \<Rightarrow> nat" where
  "first_rank a items = card (set (takeWhile (\<lambda>b. b \<noteq> a) items))"

text \<open>
  The loop invariant: after the prefix \<open>seen\<close> of the sequence, the dictionary holds
  exactly the items of \<open>seen\<close>, each with its rank, and its values count up from 0.
\<close>

definition idx_inv :: "'a list \<Rightarrow> ('a, nat) dict \<Rightarrow> bool" where
  "idx_inv seen idx \<longleftrightarrow>
     distinct (map fst idx) \<and>
     map snd idx = [0..<length idx] \<and>
     length idx = card (set seen) \<and>
     (\<forall>a. map_of idx a = (if a \<in> set seen then Some (first_rank a seen) else None))"

subsection \<open>The environment of the constructor\<close>

text \<open>
  The constructor calls \<open>os.path.expanduser\<close>, \<open>os.path.exists\<close>, \<open>os.mkdir\<close>, \<open>open\<close> and
  \<open>pickle.load\<close>. They belong to the Python library, not to this repository, so the model
  takes them as an environment: what each call returns or raises for a given path.
  \<open>mkdir\<close> gives \<open>None\<close> when the directory was created and the exception it raised
  otherwise, whatever its class (\<open>FileNotFoundError\<close> for a missing parent,
  \<open>NotADirectoryError\<close>, \<open>PermissionError\<close>, \<open>ValueError\<close> for an embedded null byte, ...);
  \<open>load_pickle\<close> is \<open>open(path, 'rb')\<close> followed by \<open>pickle.load\<close> and gives the exception
  either raised, whatever its class. Nothing in the constructor reads the file system
  again after \<open>os.mkdir\<close>, so the environment need not be threaded as a state.

  The unpickled cache is a dictionary that may hold the entries \<open>image_data\<close> (an array
  of images, height by width by channel, of bytes) and \<open>class_dict\<close> (class name to the
  list of the indices of its images); an entry that is missing is \<open>None\<close>, and
  subscripting the dictionary with its key raises \<open>KeyError\<close>.
\<close>

type_synonym raw_image = "8 word list list list"
type_synonym image = "real list list list"

record cache =
  image_data :: "raw_image list option"
  class_dict :: "(string, int list) dict option"

record os_env =
  expanduser :: "string \<Rightarrow> string"
  path_exists :: "string \<Rightarrow> bool"
  mkdir :: "string \<Rightarrow> error option"
  load_pickle :: "string \<Rightarrow> error + cache"

text \<open>
  \<open>os.path.join(a, b)\<close> on POSIX, for two components: an absolute \<open>b\<close> replaces \<open>a\<close>;
  otherwise the two are joined with one separator unless \<open>a\<close> is empty or ends with one.
\<close>

definition os_path_join :: "string \<Rightarrow> string \<Rightarrow> string" where
  "os_path_join a b =
     (if b \<noteq> [] \<and> hd b = CHR ''/'' then b
      else if a = [] \<or> last a = CHR ''/'' then a @ b
      else a @ ''/'' @ b)"

text \<open>
  \<open>torch.from_numpy(images).permute(0, 3, 1, 2).float()\<close> keeps the first axis (the
  image) and turns each image from height by width by channel into channel by height
  by width, with float entries. The entries of the cache are bytes, which \<open>float()\<close>
  represents exactly.
\<close>

definition permute_float :: "raw_image \<Rightarrow> image" where
  "permute_float img = map (map (map (\<lambda>b. real (unat b)))) (transpose (map transpose img))"

text \<open>
  Subscripting a sequence with a Python integer: a negative index counts from the end,
  an index out of range raises \<open>IndexError\<close>. \<open>py_getitem\<close> is \<open>xs[i]\<close> and \<open>py_setitem\<close>
  is \<open>xs[i] = v\<close>.
\<close>

definition py_position :: "nat \<Rightarrow> int \<Rightarrow> nat option" where
  "py_position n i =
     (let j = (if i < 0 then int n + i else i)
      in if 0 \<le> j \<and> j < int n then Some (nat j) else None)"

definition py_getitem :: "'a list \<Rightarrow> int \<Rightarrow> error + 'a" where
  "py_getitem xs i =
     (case py_position (length xs) i of None \<Rightarrow> Inl IndexError | Some j \<Rightarrow> Inr (xs ! j))"

definition py_setitem :: "'a list \<Rightarrow> int \<Rightarrow> 'a \<Rightarrow> error + 'a list" where
  "py_setitem xs i v =
     (case py_position (length xs) i of None \<Rightarrow> Inl IndexError | Some j \<Rightarrow> Inr (xs[j := v]))"

definition py_lookup :: "(string, 'v) dict \<Rightarrow> string \<Rightarrow> error + 'v" where
  "py_lookup d k = (case map_of d k of None \<Rightarrow> Inl (KeyError k) | Some v \<Rightarrow> Inr v)"

subsection \<open>MiniImagenet\<close>

text \<open>
  A transform is any Python object that can be called. Calling it may raise, so \<open>call\<close>
  returns \<open>error + 'a\<close>. Like every object it has a truth value, \<open>truth\<close>, which
  \<open>if self.transform\<close> tests: true for a function and for an object without \<open>__bool__\<close>
  and \<open>__len__\<close>, false for an object whose \<open>__bool__()\<close> is false or whose \<open>__len__()\<close>
  is 0, and an exception when the method that computes it raises. \<open>None\<close> is the
  default of both transforms.
\<close>

datatype 'a callable = Callable (truth: "error + bool") (call: "'a \<Rightarrow> error + 'a")

text \<open>The fields of an instance, named as the attributes of \<open>self\<close>.\<close>

record MiniImagenet =
  self_root :: string
  self_transform :: "image callable option"
  self_target_transform :: "real callable option"
  self_mode :: string
  self_bookkeeping_path :: string
  self_data :: cache
  self_x :: "image list"
  self_y :: "real list"
  self_class_idx :: "(string, nat) dict"

text \<open>
  Lines 87 to 94 of the constructor: the chain of comparisons of \<open>self.mode\<close> that
  chooses the cache file or raises.
  \<^verbatim>\<open>
  if self.mode == 'test':
      pickle_file = '/content/learn2learn/learn2learn/data/mini-imagenet-cache-test.pkl'
  elif self.mode == 'train':
      pickle_file = '/content/learn2learn/learn2learn/data/mini-imagenet-cache-train.pkl'
  elif self.mode == 'validation':
      pickle_file = '/content/learn2learn/learn2learn/data/mini-imagenet-cache-validation.pkl'
  else:
      raise ValueError('Needs to be train, test or validation')
  \<close>
\<close>

definition pickle_file_of_mode :: "string \<Rightarrow> error + string" where
  "pickle_file_of_mode m =
     (if m = ''test'' then
        Inr ''/content/learn2learn/learn2learn/data/mini-imagenet-cache-test.pkl''
      else if m = ''train'' then
        Inr ''/content/learn2learn/learn2learn/data/mini-imagenet-cache-train.pkl''
      else if m = ''validation'' then
        Inr ''/content/learn2learn/learn2learn/data/mini-imagenet-cache-validation.pkl''
      else Inl (ValueError ''Needs to be train, test or validation''))"

text \<open>
  Lines 106 to 108: the two nested loops that write each class's index into \<open>self.y\<close>.
  \<^verbatim>\<open>
  for class_name, idxs in self.data['class_dict'].items():
      for idx in idxs:
          self.y[idx] = self.class_idx[class_name]
  \<close>
\<close>

fun assign_class :: "(string, nat) dict \<Rightarrow> string \<Rightarrow> int list \<Rightarrow> real list \<Rightarrow> error + real list" where
  "assign_class ci class_name [] ys = Inr ys"
| "assign_class ci class_name (idx # idxs) ys =
     (case py_lookup ci class_name of
        Inl e \<Rightarrow> Inl e
      | Inr k \<Rightarrow>
         (case py_setitem ys idx (real k) of
            Inl e \<Rightarrow> Inl e
          | Inr ys' \<Rightarrow> assign_class ci class_name idxs ys'))"

fun assign_labels :: "(string, nat) dict \<Rightarrow> (string, int list) dict \<Rightarrow> real list \<Rightarrow> error + real list" where
  "assign_labels ci [] ys = Inr ys"
| "assign_labels ci ((class_name, idxs) # rest) ys =
     (case assign_class ci class_name idxs ys of
        Inl e \<Rightarrow> Inl e
      | Inr ys' \<Rightarrow> assign_labels ci rest ys')"

text \<open>
  Lines 98 to 108 of the constructor: the cache file is opened and unpickled, the
  images are converted, the labels start as ones, the classes are indexed and the
  labels are assigned. The result is \<open>self.data\<close>, \<open>self.x\<close>, \<open>self.y\<close> and
  \<open>self.class_idx\<close>.
  \<^verbatim>\<open>
  with open(pickle_file, 'rb') as f:
      self.data = pickle.load(f)

  self.x = torch.from_numpy(self.data["image_data"]).permute(0, 3, 1, 2).float()
  self.y = np.ones(len(self.x))

  self.class_idx = index_classes(self.data['class_dict'].keys())
  for class_name, idxs in self.data['class_dict'].items():
      for idx in idxs:
          self.y[idx] = self.class_idx[class_name]
  \<close>
\<close>

definition read_cache ::
  "os_env \<Rightarrow> string \<Rightarrow> error + (cache \<times> image list \<times> real list \<times> (string, nat) dict)" where
  "read_cache os pickle_file =
     (case load_pickle os pickle_file of
        Inl e \<Rightarrow> Inl e
      | Inr d \<Rightarrow>
         (case image_data d of
            None \<Rightarrow> Inl (KeyError ''image_data'')
          | Some images \<Rightarrow>
             (let xs = map permute_float images;
                  ys = replicate (length xs) 1
              in case class_dict d of
                   None \<Rightarrow> Inl (KeyError ''class_dict'')
                 | Some cd \<Rightarrow>
                    (let ci = index_classes (map fst cd)
                     in case assign_labels ci cd ys of
                          Inl e \<Rightarrow> Inl e
                        | Inr ys' \<Rightarrow> Inr (d, xs, ys', ci)))))"

text \<open>
  \<open>MiniImagenet.__init__(self, root, mode, transform, target_transform, download)\<close>, in
  the order of the source: the root is expanded and created when it does not exist
  (lines 80 to 82), the transforms and the mode are stored, the bookkeeping path is
  built, the mode is checked (lines 87 to 94), and the cache is read (lines 98 to
  108). An exception of any step is the result of the constructor. \<open>download\<close> is
  accepted and never read.
\<close>

definition MiniImagenet_init ::
  "os_env \<Rightarrow> string \<Rightarrow> string \<Rightarrow> image callable option \<Rightarrow> real callable option \<Rightarrow> bool \<Rightarrow>
   error + MiniImagenet" where
  "MiniImagenet_init os root0 mode0 transform0 target_transform0 download =
     (let r = expanduser os root0 in
      case (if \<not> path_exists os r then mkdir os r else None) of
        Some e \<Rightarrow> Inl e
      | None \<Rightarrow>
         (let bookkeeping = os_path_join r (''mini-imagenet-bookkeeping-'' @ mode0 @ ''.pkl'') in
          case pickle_file_of_mode mode0 of
            Inl e \<Rightarrow> Inl e
          | Inr pickle_file \<Rightarrow>
             (case read_cache os pickle_file of
                Inl e \<Rightarrow> Inl e
              | Inr (d, xs, ys, ci) \<Rightarrow>
                  Inr \<lparr>self_root = r,
                       self_transform = transform0,
                       self_target_transform = target_transform0,
                       self_mode = mode0,
                       self_bookkeeping_path = bookkeeping,
                       self_data = d,
                       self_x = xs,
                       self_y = ys,
                       self_class_idx = ci\<rparr>)))"

text \<open>
  \<^verbatim>\<open>
  def __getitem__(self, idx):
      data = self.x[idx]
      if self.transform:
          data = self.transform(data)
      return data, self.y[idx]

  def __len__(self):
      return len(self.x)
  \<close>
  \<open>if self.transform\<close> tests the truth value of the attribute: \<open>None\<close> is false, and a
  callable is applied only when its own truth value is true; an exception of the test
  is the result.
\<close>

definition MiniImagenet_getitem :: "MiniImagenet \<Rightarrow> int \<Rightarrow> error + (image \<times> real)" where
  "MiniImagenet_getitem self idx =
     (case py_getitem (self_x self) idx of
        Inl e \<Rightarrow> Inl e
      | Inr d \<Rightarrow>
         (case (case self_transform self of
                  None \<Rightarrow> Inr d
                | Some t \<Rightarrow>
                   (case truth t of
                      Inl e \<Rightarrow> Inl e
                    | Inr b \<Rightarrow> if b then call t d else Inr d)) of
            Inl e \<Rightarrow> Inl e
          | Inr d' \<Rightarrow>
             (case py_getitem (self_y self) idx of
                Inl e \<Rightarrow> Inl e
              | Inr label \<Rightarrow> Inr (d', label))))"

definition MiniImagenet_len :: "MiniImagenet \<Rightarrow> nat" where
  "MiniImagenet_len self = length (self_x self)"

text \<open>
  An environment for examples: the root \<^verbatim>\<open>./data\<close> exists, the training cache holds two
  images of one pixel and one channel, of two classes.
\<close>

definition example_cache :: cache where
  "example_cache =
     \<lparr>image_data = Some [[[[7]]], [[[9]]]],
      class_dict = Some [(''n01'', [1]), (''n02'', [0])]\<rparr>"

definition example_env :: os_env where
  "example_env =
     \<lparr>expanduser = (\<lambda>p. p),
      path_exists = (\<lambda>p. p = ''./data''),
      mkdir = (\<lambda>p. None),
      load_pickle = (\<lambda>p.
        if p = ''/content/learn2learn/learn2learn/data/mini-imagenet-cache-train.pkl''
        then Inr example_cache else Inl FileNotFoundError)\<rparr>"


text \<open>
  Two transforms, and the instances the constructor builds in \<open>example_env\<close>: one with a
  function as its transform, whose truth value is true, and one with a callable object
  whose truth value is false (a class with \<open>__call__\<close> and with \<open>__len__\<close> returning 0).
\<close>

definition negate_image :: "image \<Rightarrow> error + image" where
  "negate_image img = Inr (map (map (map uminus)) img)"

definition halve_label :: "real \<Rightarrow> error + real" where
  "halve_label l = Inr (l / 2)"

definition example_instance :: MiniImagenet where
  "example_instance =
     \<lparr>self_root = ''./data'',
      self_transform = Some (Callable (Inr True) negate_image),
      self_target_transform = Some (Callable (Inr True) halve_label),
      self_mode = ''train'',
      self_bookkeeping_path = ''./data/mini-imagenet-bookkeeping-train.pkl'',
      self_data = example_cache,
      self_x = [[[[7]]], [[[9]]]],
      self_y = [1, 0],
      self_class_idx = [(''n01'', 0), (''n02'', 1)]\<rparr>"

definition falsy_instance :: MiniImagenet where
  "falsy_instance = example_instance\<lparr>self_transform := Some (Callable (Inr False) negate_image)\<rparr>"

section \<open>The adaptation engine\<close>

text \<open>
  Modelled from the spec: the Adaptable Wrapper \<open>learn2learn.algorithms.MAML\<close> with its
  operations \<open>clone\<close> and \<open>adapt\<close>, and the Module Cloner it delegates to, are missing from
  the source files; only their unit tests (\<^verbatim>\<open>src/tests/unit/algorithms/maml_test.py\<close>)
  are there. The definitions of this section follow the words of sections 3, 4.1, 4.2
  and 7 of the specification. The autodiff substrate is external to the repository
  (section 6) and is taken as a parameter: a loss is represented by the gradient the
  substrate returns for it with respect to each parameter.
\<close>

subsection \<open>Tensors, modules and the wrapper (section 3)\<close>

text \<open>
  Modelled from the spec: the Parameter of section 3, "a tensor value plus a
  \<open>requires_grad\<close> flag and an optional \<open>grad\<close> accumulator". \<open>computed_from\<close> is the graph
  linkage: the tensors the computation history of this one references; it is empty for
  a leaf and for a detached copy.
\<close>

datatype tensor =
  Tensor (tensor_data: "real list") (requires_grad: bool) (grad: "real list option")
         (computed_from: "tensor list")

text \<open>
  Modelled from the spec: the Module of section 3, "a tree of named sub-modules, each
  owning zero or more Parameters and zero or more Buffers".
\<close>

datatype module =
  Module (direct_parameters: "(string \<times> tensor) list")
         (direct_buffers: "(string \<times> tensor) list")
         (children: "(string \<times> module) list")

text \<open>
  Modelled from the spec: the stable name path of every parameter from the module root
  (section 3). The parameters of a module are enumerated with their paths, the
  module's own first, then those of its children in order; a child's name and a dot
  prefix the names below it. \<open>update_module f\<close> replaces every parameter \<open>p\<close> at path
  \<open>n\<close> by \<open>f n p\<close> and leaves buffers and the tree structure as they are (the side effect
  of \<open>adapt\<close>, section 4.2).
\<close>

fun named_parameters :: "string \<Rightarrow> module \<Rightarrow> (string \<times> tensor) list" where
  "named_parameters prefix (Module ps bs cs) =
     map (\<lambda>(n, t). (prefix @ n, t)) ps @
     concat (map (\<lambda>(n, c). named_parameters (prefix @ n @ ''.'') c) cs)"

fun update_module :: "(string \<Rightarrow> tensor \<Rightarrow> tensor) \<Rightarrow> string \<Rightarrow> module \<Rightarrow> module" where
  "update_module f prefix (Module ps bs cs) =
     Module (map (\<lambda>(n, t). (n, f (prefix @ n) t)) ps) bs
            (map (\<lambda>(n, c). (n, update_module f (prefix @ n @ ''.'') c)) cs)"

text \<open>
  Modelled from the spec: the Adaptable Wrapper of section 3, which "wraps exactly one
  Module, holds configuration \<open>{lr, first_order, allow_unused, allow_nograd}\<close>".
\<close>

record maml =
  maml_module :: module
  maml_lr :: real
  maml_first_order :: bool
  maml_allow_unused :: bool
  maml_allow_nograd :: bool

definition MAML :: "module \<Rightarrow> real \<Rightarrow> bool \<Rightarrow> bool \<Rightarrow> bool \<Rightarrow> maml" where
  "MAML model rate first_order allow_unused allow_nograd =
     \<lparr>maml_module = model, maml_lr = rate, maml_first_order = first_order,
      maml_allow_unused = allow_unused, maml_allow_nograd = allow_nograd\<rparr>"

text \<open>
  Modelled from the spec: the per-call override of the configuration flags (section 9),
  "call-supplied value wins, else falls back to instance default".
\<close>

definition override :: "bool option \<Rightarrow> bool \<Rightarrow> bool" where
  "override given configured = (case given of None \<Rightarrow> configured | Some b \<Rightarrow> b)"

subsection \<open>The Module Cloner (section 4.1)\<close>

text \<open>
  Modelled from the spec: the clone-update primitive of section 4.1. A parameter that
  requires gradients is cloned to a tensor of equal value whose history references the
  source; a parameter with \<open>requires_grad=False\<close> and every buffer is cloned as "a true
  detached copy with no graph linkage". Sub-modules are cloned first, then the module
  is reassembled under the same names.
\<close>

definition detach :: "tensor \<Rightarrow> tensor" where
  "detach t = Tensor (tensor_data t) False None []"

definition clone_parameter :: "tensor \<Rightarrow> tensor" where
  "clone_parameter t =
     (if requires_grad t then Tensor (map (\<lambda>a. a + 0) (tensor_data t)) True None [t]
      else detach t)"

fun clone_module :: "module \<Rightarrow> module" where
  "clone_module (Module ps bs cs) =
     Module (map (\<lambda>(n, t). (n, clone_parameter t)) ps)
            (map (\<lambda>(n, t). (n, detach t)) bs)
            (map (\<lambda>(n, c). (n, clone_module c)) cs)"

subsection \<open>The Adaptation Engine (sections 4.2 and 7)\<close>

text \<open>
  Modelled from the spec: the error taxonomy of section 7 for \<open>adapt\<close>.
\<close>

datatype adapt_error = MissingGradientError | GradientComputationError

text \<open>
  Modelled from the spec: the gradient primitive of the autodiff substrate (section 6,
  item 2). A loss is given by the gradient the substrate computes for it with respect
  to the parameter at each name path, \<open>None\<close> when "no gradient exists (the parameter
  was not used in computing \<open>loss\<close>)".
\<close>

type_synonym loss = "string \<Rightarrow> tensor option"

text \<open>
  Modelled from the spec: the update of section 4.2, "new value \<open>p' = p - lr * g\<close>". The
  new tensor is computed from the old one by a tracked operation, so its history
  references the prior state \<open>p\<close>; and the gradient too unless \<open>first_order\<close> holds, when
  "the gradient values are detached from the graph". The learning rate is the fixed
  scalar of the wrapper.
\<close>

definition descent_step :: "real \<Rightarrow> bool \<Rightarrow> tensor \<Rightarrow> tensor \<Rightarrow> tensor" where
  "descent_step rate first_order p g =
     Tensor (map2 (\<lambda>a b. a - rate * b) (tensor_data p) (tensor_data g)) True None
            (p # (if first_order then [] else [g]))"

text \<open>
  Modelled from the spec: what \<open>adapt\<close> does to one parameter (section 4.2). A parameter
  with \<open>requires_grad=False\<close> is skipped ("skip gradient computation and update for that
  parameter"), a parameter without a gradient is skipped ("leave parameter
  unchanged"), every other one takes the descent step.
\<close>

definition adapt_parameter :: "real \<Rightarrow> bool \<Rightarrow> loss \<Rightarrow> string \<Rightarrow> tensor \<Rightarrow> tensor" where
  "adapt_parameter rate first_order l n p =
     (if requires_grad p then
        (case l n of None \<Rightarrow> p | Some g \<Rightarrow> descent_step rate first_order p g)
      else p)"

text \<open>
  Modelled from the spec: \<open>adapt(loss, first_order=None, allow_unused=None,
  allow_nograd=None)\<close> of section 4.2 with the errors of section 7. The flags are merged
  with the wrapper's. \<open>GradientComputationError\<close> is "raised when \<open>adapt()\<close> attempts to
  differentiate with respect to a parameter with \<open>requires_grad=False\<close> and
  \<open>allow_nograd\<close> is not enabled": the request for the gradient is refused, before any
  gradient exists. \<open>MissingGradientError\<close> is "raised when a parameter receives no
  gradient during \<open>adapt()\<close> and \<open>allow_unused\<close> is not enabled": it concerns the
  parameters the gradient was computed for, those that require gradients. Python's
  \<open>adapt\<close> replaces the module of the wrapper in place; here it returns the wrapper with
  the updated module, and nothing is updated when it raises.
\<close>

definition adapt ::
  "maml \<Rightarrow> loss \<Rightarrow> bool option \<Rightarrow> bool option \<Rightarrow> bool option \<Rightarrow> adapt_error + maml" where
  "adapt w l first_order allow_unused allow_nograd =
     (let fo = override first_order (maml_first_order w);
          au = override allow_unused (maml_allow_unused w);
          an = override allow_nograd (maml_allow_nograd w);
          ps = named_parameters [] (maml_module w)
      in if \<not> an \<and> list_ex (\<lambda>(n, p). \<not> requires_grad p) ps then
           Inl GradientComputationError
         else if \<not> au \<and> list_ex (\<lambda>(n, p). requires_grad p \<and> l n = None) ps then
           Inl MissingGradientError
         else
           Inr (w\<lparr>maml_module :=
                    update_module (adapt_parameter (maml_lr w) fo l) [] (maml_module w)\<rparr>))"

text \<open>
  Modelled from the spec: \<open>clone(first_order=None, allow_unused=None,
  allow_nograd=None)\<close> of section 4.2, which "applies the Module Cloner to the wrapped
  module and returns a new Adaptable Wrapper instance around the cloned module,
  inheriting (or overriding) the configuration flags".
\<close>

definition maml_clone :: "maml \<Rightarrow> bool option \<Rightarrow> bool option \<Rightarrow> bool option \<Rightarrow> maml" where
  "maml_clone w first_order allow_unused allow_nograd =
     \<lparr>maml_module = clone_module (maml_module w),
      maml_lr = maml_lr w,
      maml_first_order = override first_order (maml_first_order w),
      maml_allow_unused = override allow_unused (maml_allow_unused w),
      maml_allow_nograd = override allow_nograd (maml_allow_nograd w)\<rparr>"

subsection \<open>The forward pass\<close>

text \<open>
  Modelled from the spec: \<open>forward(*args)\<close> of section 4.2, which "delegates to the
  wrapped module's forward computation unchanged". The forward computation of a
  concrete module belongs to its architecture, which the specification leaves outside
  (section 1); it is the parameter \<open>net\<close>, any function of the module's tensor values
  and of the input. \<open>values_of\<close> is what such a computation reads: the tree with its
  names and the value of every parameter and buffer, without gradient flags,
  accumulators or graph linkage.
\<close>

fun values_of :: "module \<Rightarrow> module" where
  "values_of (Module ps bs cs) =
     Module (map (\<lambda>(n, t). (n, detach t)) ps)
            (map (\<lambda>(n, t). (n, detach t)) bs)
            (map (\<lambda>(n, c). (n, values_of c)) cs)"

definition module_forward :: "(module \<Rightarrow> 'x \<Rightarrow> real list) \<Rightarrow> module \<Rightarrow> 'x \<Rightarrow> real list" where
  "module_forward net m x = net (values_of m) x"

definition forward :: "(module \<Rightarrow> 'x \<Rightarrow> real list) \<Rightarrow> maml \<Rightarrow> 'x \<Rightarrow> real list" where
  "forward net w x = module_forward net (maml_module w) x"

subsection \<open>The scenarios of the unit tests\<close>

text \<open>
  Source: \<^verbatim>\<open>src/tests/unit/algorithms/maml_test.py\<close>, lines 12 to 16.
  \<^verbatim>\<open>
  EPSILON = 1e-8

  def close(x, y):
      return (x - y).norm(p=2) <= EPSILON
  \<close>
  Outputs are the lists of their entries; \<open>norm2\<close> is \<open>norm(p=2)\<close>.
\<close>

definition EPSILON :: real where
  "EPSILON = 1 / 10 ^ 8"

definition norm2 :: "real list \<Rightarrow> real" where
  "norm2 v = sqrt (\<Sum>a\<leftarrow>v. a\<^sup>2)"

definition close :: "real list \<Rightarrow> real list \<Rightarrow> bool" where
  "close a b \<longleftrightarrow> norm2 (map2 (-) a b) \<le> EPSILON"

text \<open>
  Source: \<^verbatim>\<open>src/tests/unit/algorithms/maml_test.py\<close>. The model of \<open>setUp\<close> is a
  sequence of three linear layers (children 0, 2 and 4, each with a weight and a bias)
  with parameterless activations between them (children 1, 3 and 5) and one buffer;
  here every tensor has one or two entries. \<open>test_allow_nograd\<close> sets
  \<open>model[2].weight.requires_grad = False\<close> and adapts a clone to the sum of the norms of
  the clone's parameters, whose gradient with respect to a parameter \<open>p\<close> is
  \<open>p / norm(p)\<close>; the frozen \<open>2.weight\<close> is not tracked and has no gradient.
  \<open>test_clone_module\<close> compares the output of the model with that of two clones.
\<close>

definition INNER_LR :: real where
  "INNER_LR = 1 / 100"

definition leaf :: "real list \<Rightarrow> tensor" where
  "leaf d = Tensor d True None []"

definition linear :: "tensor \<Rightarrow> tensor \<Rightarrow> module" where
  "linear w b = Module [(''weight'', w), (''bias'', b)] [] []"

definition activation :: module where
  "activation = Module [] [] []"

definition test_model :: module where
  "test_model =
     Module [] [(''dummy_buf'', Tensor [0, 0] False None [])]
       [(''0'', linear (leaf [3, 4]) (leaf [2])),
        (''1'', activation),
        (''2'', linear (leaf [0, 1]) (leaf [-2])),
        (''3'', activation),
        (''4'', linear (leaf [5, 12]) (leaf [1])),
        (''5'', activation)]"

definition nograd_model :: module where
  "nograd_model =
     Module [] [(''dummy_buf'', Tensor [0, 0] False None [])]
       [(''0'', linear (leaf [3, 4]) (leaf [2])),
        (''1'', activation),
        (''2'', linear (Tensor [0, 1] False None []) (leaf [-2])),
        (''3'', activation),
        (''4'', linear (leaf [5, 12]) (leaf [1])),
        (''5'', activation)]"

definition sum_of_norms :: loss where
  "sum_of_norms n =
     (if n = ''0.weight'' then Some (Tensor [3 / 5, 4 / 5] True None [])
      else if n = ''0.bias'' then Some (Tensor [1] True None [])
      else if n = ''2.bias'' then Some (Tensor [-1] True None [])
      else if n = ''4.weight'' then Some (Tensor [5 / 13, 12 / 13] True None [])
      else if n = ''4.bias'' then Some (Tensor [1] True None [])
      else None)"

text \<open>
  The clone \<open>test_allow_nograd\<close> adapts: \<open>maml.clone()\<close> of the wrapper built with
  \<open>allow_unused=False, allow_nograd=False\<close>. And a forward computation for
  \<open>test_clone_module\<close>: the input times the sum of all parameter entries.
\<close>

definition nograd_clone :: maml where
  "nograd_clone = maml_clone (MAML nograd_model INNER_LR False False False) None None None"

definition sum_net :: "module \<Rightarrow> real \<Rightarrow> real list" where
  "sum_net m x = [x * sum_list (concat (map (tensor_data \<circ> snd) (named_parameters [] m)))]"

section \<open>Properties of the dataset loader\<close>

lemma first_rank_snoc_old:
  "a \<in> set seen \<Longrightarrow> first_rank a (seen @ [i]) = first_rank a seen"
  by (simp add: first_rank_def)

lemma first_rank_snoc_new:
  "i \<notin> set seen \<Longrightarrow> first_rank i (seen @ [i]) = card (set seen)"
proof -
  assume "i \<notin> set seen"
  then have "takeWhile (\<lambda>b. b \<noteq> i) (seen @ [i]) = seen @ takeWhile (\<lambda>b. b \<noteq> i) [i]"
    by (intro takeWhile_append2) auto
  then show ?thesis by (simp add: first_rank_def)
qed

lemma idx_inv_step:
  assumes "idx_inv seen idx"
  shows "idx_inv (seen @ [i]) (if map_of idx i = None then idx @ [(i, length idx)] else idx)"
proof (cases "i \<in> set seen")
  case True
  with assms have "map_of idx i \<noteq> None" by (simp add: idx_inv_def)
  moreover have "idx_inv (seen @ [i]) idx"
    using assms True by (auto simp: idx_inv_def first_rank_snoc_old insert_absorb)
  ultimately show ?thesis by auto
next
  case False
  with assms have none: "map_of idx i = None" by (simp add: idx_inv_def)
  then have "i \<notin> fst ` set idx" by (simp add: map_of_eq_None_iff)
  then have "idx_inv (seen @ [i]) (idx @ [(i, length idx)])"
    using assms False none
    by (auto simp: idx_inv_def first_rank_snoc_old first_rank_snoc_new map_add_def split: option.splits)
  with none show ?thesis by simp
qed

lemma index_classes_loop_inv:
  "idx_inv seen idx \<Longrightarrow> idx_inv (seen @ items) (index_classes_loop items idx)"
proof (induction items arbitrary: seen idx)
  case Nil
  then show ?case by simp
next
  case (Cons i items)
  from idx_inv_step [OF Cons.prems, of i]
  have "idx_inv ((seen @ [i]) @ items)
          (index_classes_loop items (if map_of idx i = None then idx @ [(i, length idx)] else idx))"
    by (rule Cons.IH)
  then show ?case by simp
qed

lemma index_classes_inv: "idx_inv items (index_classes items)"
  using index_classes_loop_inv [of "[]" "[]" items]
  by (simp add: index_classes_def idx_inv_def)


lemma first_pos_less_length: "a \<in> set items \<Longrightarrow> first_pos a items < length items"
  unfolding first_pos_def
  by (metis (mono_tags, lifting) length_takeWhile_le le_neq_implies_less takeWhile_eq_all_conv
      takeWhile_eq_take take_all_iff order_refl)

lemma nth_first_pos: "a \<in> set items \<Longrightarrow> items ! first_pos a items = a"
  using nth_length_takeWhile [of "\<lambda>b. b \<noteq> a" items] first_pos_less_length [of a items]
  by (simp add: first_pos_def)

lemma first_rank_take: "first_rank a items = card (set (take (first_pos a items) items))"
  using takeWhile_eq_take [of "\<lambda>b. b \<noteq> a" items] by (simp add: first_rank_def first_pos_def)

lemma first_rank_mono:
  assumes a: "a \<in> set items" and lt: "first_pos a items < first_pos b items"
  shows "first_rank a items < first_rank b items"
proof -
  let ?A = "set (take (first_pos a items) items)"
  let ?B = "set (take (first_pos b items) items)"
  have sub: "?A \<subseteq> ?B" using lt by (simp add: set_take_subset_set_take)
  have "a \<notin> set (takeWhile (\<lambda>b. b \<noteq> a) items)" by (auto dest: set_takeWhileD)
  then have notA: "a \<notin> ?A"
    using takeWhile_eq_take [of "\<lambda>b. b \<noteq> a" items] by (simp add: first_pos_def)
  have "first_pos b items \<le> length items" by (simp add: first_pos_def length_takeWhile_le)
  then have "take (first_pos b items) items ! first_pos a items = items ! first_pos a items"
    using lt by simp
  moreover have "first_pos a items < length (take (first_pos b items) items)"
    using lt first_pos_less_length [OF a] by simp
  ultimately have inB: "a \<in> ?B"
    using nth_first_pos [OF a] by (metis nth_mem)
  from sub notA inB have "?A \<subset> ?B" by auto
  then have "card ?A < card ?B" by (simp add: psubset_card_mono)
  then show ?thesis by (simp add: first_rank_take)
qed

lemma first_rank_less_iff:
  assumes a: "a \<in> set items" and b: "b \<in> set items"
  shows "first_rank a items < first_rank b items \<longleftrightarrow> first_pos a items < first_pos b items"
proof
  assume "first_pos a items < first_pos b items"
  with a show "first_rank a items < first_rank b items" by (rule first_rank_mono)
next
  assume r: "first_rank a items < first_rank b items"
  show "first_pos a items < first_pos b items"
  proof (rule ccontr)
    assume "\<not> first_pos a items < first_pos b items"
    then consider "first_pos a items = first_pos b items" | "first_pos b items < first_pos a items"
      by linarith
    then show False
    proof cases
      case 1
      then have "a = b" using nth_first_pos [OF a] nth_first_pos [OF b] by metis
      with r show False by simp
    next
      case 2
      from first_rank_mono [OF b 2] r show False by simp
    qed
  qed
qed

lemma index_classes_values: "snd ` set (index_classes items) = {0..<card (set items)}"
proof -
  have "idx_inv items (index_classes items)" by (rule index_classes_inv)
  then have "map snd (index_classes items) = [0..<card (set items)]"
    by (simp add: idx_inv_def)
  then have "set (map snd (index_classes items)) = set [0..<card (set items)]" by simp
  then show ?thesis by simp
qed

text \<open>
  Claim C9. For every sequence of items, \<open>index_classes\<close> returns a dictionary (distinct
  keys) whose keys are exactly the items of the sequence; each item is mapped to the rank
  of its first occurrence among the distinct items (the number of distinct items that
  occur before it); the mapping is injective on the items; its set of values is exactly
  \<open>{0, ..., n - 1}\<close> for \<open>n\<close> the number of distinct items; and one item's index is smaller
  than another's exactly when its first occurrence is earlier in the sequence.
\<close>

theorem index_classes_first_occurrence_rank:
  "distinct (map fst (index_classes items)) \<and>
   dom (map_of (index_classes items)) = set items \<and>
   (\<forall>a\<in>set items. map_of (index_classes items) a = Some (first_rank a items)) \<and>
   inj_on (map_of (index_classes items)) (set items) \<and>
   ran (map_of (index_classes items)) = {0..<card (set items)} \<and>
   (\<forall>a\<in>set items. \<forall>b\<in>set items. \<forall>m n.
      map_of (index_classes items) a = Some m \<and> map_of (index_classes items) b = Some n \<longrightarrow>
      (m < n \<longleftrightarrow> first_pos a items < first_pos b items))"
proof -
  let ?d = "index_classes items"
  have inv: "idx_inv items ?d" by (rule index_classes_inv)
  then have dist: "distinct (map fst ?d)" by (simp add: idx_inv_def)
  from inv have look: "map_of ?d a = (if a \<in> set items then Some (first_rank a items) else None)" for a
    by (simp add: idx_inv_def)
  have dom: "dom (map_of ?d) = set items" by (auto simp: look dom_def)
  have ranks: "\<forall>a\<in>set items. map_of ?d a = Some (first_rank a items)" by (simp add: look)
  have ord: "\<forall>a\<in>set items. \<forall>b\<in>set items. \<forall>m n.
      map_of ?d a = Some m \<and> map_of ?d b = Some n \<longrightarrow>
      (m < n \<longleftrightarrow> first_pos a items < first_pos b items)"
    by (auto simp: look first_rank_less_iff)
  have inj: "inj_on (map_of ?d) (set items)"
  proof (rule inj_onI)
    fix a b assume a: "a \<in> set items" and b: "b \<in> set items" and "map_of ?d a = map_of ?d b"
    then have eq: "first_rank a items = first_rank b items" by (simp add: look)
    have "\<not> first_pos a items < first_pos b items" "\<not> first_pos b items < first_pos a items"
      using first_rank_less_iff [OF a b] first_rank_less_iff [OF b a] eq by simp_all
    then have "first_pos a items = first_pos b items" by simp
    then show "a = b" using nth_first_pos [OF a] nth_first_pos [OF b] by metis
  qed
  have "ran (map_of ?d) = snd ` set ?d" using dist by (rule ran_distinct)
  then have ran: "ran (map_of ?d) = {0..<card (set items)}" by (simp add: index_classes_values)
  from dist dom ranks inj ran ord show ?thesis by blast
qed

theorem index_classes_first_occurrence_rank_witness:
  "''a'' \<in> set [''b'', ''a'', ''b'', ''c'', ''a''] \<and>
   ''c'' \<in> set [''b'', ''a'', ''b'', ''c'', ''a''] \<and>
   index_classes [''b'', ''a'', ''b'', ''c'', ''a''] = [(''b'', 0), (''a'', 1), (''c'', 2)] \<and>
   map_of (index_classes [''b'', ''a'', ''b'', ''c'', ''a'']) ''a'' = Some 1 \<and>
   map_of (index_classes [''b'', ''a'', ''b'', ''c'', ''a'']) ''c'' = Some 2 \<and>
   first_pos ''a'' [''b'', ''a'', ''b'', ''c'', ''a''] = 1 \<and>
   first_pos ''c'' [''b'', ''a'', ''b'', ''c'', ''a''] = 3"
  using index_classes_first_occurrence_rank [of "[''b'', ''a'', ''b'', ''c'', ''a'']"]
  by (simp add: index_classes_def first_pos_def)

lemma py_setitem_length: "py_setitem xs i v = Inr ys \<Longrightarrow> length ys = length xs"
  by (auto simp: py_setitem_def split: option.splits)

lemma assign_class_length:
  "assign_class ci c idxs ys = Inr ys' \<Longrightarrow> length ys' = length ys"
proof (induction idxs arbitrary: ys)
  case Nil
  then show ?case by simp
next
  case (Cons i idxs)
  then show ?case
    by (auto split: sum.splits dest: py_setitem_length)
qed

lemma assign_labels_length:
  "assign_labels ci cd ys = Inr ys' \<Longrightarrow> length ys' = length ys"
proof (induction cd arbitrary: ys)
  case Nil
  then show ?case by simp
next
  case (Cons p cd)
  obtain c idxs where p: "p = (c, idxs)" by (cases p)
  from Cons show ?case
    by (auto simp: p split: sum.splits dest: assign_class_length)
qed

lemma read_cache_length:
  "read_cache os p = Inr (d, xs, ys, ci) \<Longrightarrow> length ys = length xs"
  by (auto simp: read_cache_def Let_def split: option.splits sum.splits
      dest: assign_labels_length)

lemma MiniImagenet_init_fields:
  assumes "MiniImagenet_init os root0 mode0 tr tt dl = Inr self"
  shows "self_transform self = tr" and "self_target_transform self = tt"
    and "length (self_y self) = length (self_x self)"
    and "self_mode self = mode0"
  using assms
  by (auto simp: MiniImagenet_init_def Let_def split: option.splits sum.splits if_splits
      dest: read_cache_length)

lemma py_getitem_valid:
  "- int (length xs) \<le> i \<Longrightarrow> i < int (length xs) \<Longrightarrow>
   py_getitem xs i = Inr (xs ! nat (if i < 0 then int (length xs) + i else i))"
  by (auto simp: py_getitem_def py_position_def Let_def)

lemma MiniImagenet_init_target_transform:
  assumes "MiniImagenet_init os root0 mode0 tr tt dl = Inr self"
  shows "MiniImagenet_init os root0 mode0 tr tt' dl = Inr (self\<lparr>self_target_transform := tt'\<rparr>)"
  using assms
  by (auto simp: MiniImagenet_init_def Let_def split: option.splits sum.splits if_splits)

text \<open>
  Claim C10, as amended. For every MiniImagenet instance (one the constructor returned)
  and every valid index \<open>idx\<close> (from \<open>-len\<close> up to \<open>len - 1\<close>), \<open>__getitem__(idx)\<close> returns the
  label \<open>y[idx]\<close> unchanged whatever \<open>target_transform\<close> was supplied at construction: the
  argument is stored in the instance, constructing with another one changes that field
  only, and the result of \<open>__getitem__\<close> does not depend on it. \<open>transform\<close> is applied to
  the image \<open>x[idx]\<close> when it is supplied and its truth value is true (its exception, if
  it raises, is the result); a supplied transform whose truth value is false is
  skipped, as \<open>None\<close> is, and the image is returned as stored; an exception of the
  truth test is the result.
\<close>

theorem getitem_label_unchanged:
  assumes init: "MiniImagenet_init os root0 mode0 tr tt dl = Inr self"
    and lo: "- int (MiniImagenet_len self) \<le> idx" and hi: "idx < int (MiniImagenet_len self)"
  shows "self_target_transform self = tt \<and>
         MiniImagenet_init os root0 mode0 tr tt' dl = Inr (self\<lparr>self_target_transform := tt'\<rparr>) \<and>
         MiniImagenet_getitem (self\<lparr>self_target_transform := tt'\<rparr>) idx = MiniImagenet_getitem self idx \<and>
         (\<exists>d label. py_getitem (self_x self) idx = Inr d \<and> py_getitem (self_y self) idx = Inr label \<and>
            MiniImagenet_getitem self idx =
              (case tr of
                 None \<Rightarrow> Inr (d, label)
               | Some t \<Rightarrow>
                  (case truth t of
                     Inl e \<Rightarrow> Inl e
                   | Inr b \<Rightarrow>
                      if b
                      then (case call t d of Inl e \<Rightarrow> Inl e | Inr d' \<Rightarrow> Inr (d', label))
                      else Inr (d, label))))"
proof -
  note f = MiniImagenet_init_fields [OF init]
  let ?n = "length (self_x self)"
  let ?j = "nat (if idx < 0 then int ?n + idx else idx)"
  have gx: "py_getitem (self_x self) idx = Inr (self_x self ! ?j)"
    using lo hi by (simp add: py_getitem_valid MiniImagenet_len_def)
  have gy: "py_getitem (self_y self) idx = Inr (self_y self ! ?j)"
    using lo hi f(3) py_getitem_valid [of "self_y self" idx] by (simp add: MiniImagenet_len_def)
  have "MiniImagenet_getitem self idx =
          (case tr of
             None \<Rightarrow> Inr (self_x self ! ?j, self_y self ! ?j)
           | Some t \<Rightarrow>
              (case truth t of
                 Inl e \<Rightarrow> Inl e
               | Inr b \<Rightarrow>
                  if b
                  then (case call t (self_x self ! ?j) of
                          Inl e \<Rightarrow> Inl e | Inr d' \<Rightarrow> Inr (d', self_y self ! ?j))
                  else Inr (self_x self ! ?j, self_y self ! ?j)))"
    by (simp add: MiniImagenet_getitem_def gx gy f(1) split: option.splits sum.splits)
  moreover have "MiniImagenet_getitem (self\<lparr>self_target_transform := tt'\<rparr>) idx = MiniImagenet_getitem self idx"
    by (simp add: MiniImagenet_getitem_def cong: sum.case_cong option.case_cong)
  ultimately show ?thesis
    using f(2) gx gy MiniImagenet_init_target_transform [OF init] by simp
qed

lemmas loader_defs =
  MiniImagenet_init_def read_cache_def example_env_def example_cache_def pickle_file_of_mode_def
  os_path_join_def permute_float_def index_classes_def py_lookup_def py_setitem_def
  py_position_def example_instance_def falsy_instance_def Let_def

lemma example_init:
  "MiniImagenet_init example_env ''./data'' ''train'' (Some (Callable (Inr True) negate_image))
     (Some (Callable (Inr True) halve_label)) False = Inr example_instance"
  by (simp add: loader_defs)

lemma falsy_init:
  "MiniImagenet_init example_env ''./data'' ''train'' (Some (Callable (Inr False) negate_image))
     (Some (Callable (Inr True) halve_label)) False = Inr falsy_instance"
  by (simp add: loader_defs)

theorem getitem_label_unchanged_witness:
  "MiniImagenet_init example_env ''./data'' ''train'' (Some (Callable (Inr True) negate_image))
     (Some (Callable (Inr True) halve_label)) False = Inr example_instance \<and>
   - int (MiniImagenet_len example_instance) \<le> 0 \<and> 0 < int (MiniImagenet_len example_instance) \<and>
   self_target_transform example_instance = Some (Callable (Inr True) halve_label) \<and>
   MiniImagenet_getitem example_instance 0 = Inr ([[[-7]]], 1) \<and>
   MiniImagenet_getitem (example_instance\<lparr>self_target_transform := None\<rparr>) 0 = Inr ([[[-7]]], 1)"
  using getitem_label_unchanged [OF example_init, of 0 None]
  by (simp add: example_init example_instance_def MiniImagenet_len_def MiniImagenet_getitem_def
      py_getitem_def py_position_def negate_image_def)

text \<open>
  The claim as stated fails for a transform that is supplied and whose truth value is
  false: constructed with the callable object \<open>Callable (Inr False) negate_image\<close>, the
  instance returns the image \<open>x[0]\<close> as stored, although calling the transform on it
  gives another image. Line 112 tests \<open>if self.transform\<close>, not whether the attribute is
  \<open>None\<close>.
\<close>

theorem getitem_label_unchanged_counterexample:
  "MiniImagenet_init example_env ''./data'' ''train'' (Some (Callable (Inr False) negate_image))
     (Some (Callable (Inr True) halve_label)) False = Inr falsy_instance \<and>
   self_transform falsy_instance = Some (Callable (Inr False) negate_image) \<and>
   py_getitem (self_x falsy_instance) 0 = Inr [[[7]]] \<and>
   call (Callable (Inr False) negate_image) [[[7]]] = Inr [[[-7]]] \<and>
   MiniImagenet_getitem falsy_instance 0 = Inr ([[[7]]], 1)"
  by (simp add: falsy_init falsy_instance_def example_instance_def MiniImagenet_getitem_def
      py_getitem_def py_position_def negate_image_def)






section \<open>Properties of the adaptation engine\<close>

lemma named_parameters_update:
  "named_parameters prefix (update_module f prefix m) =
     map (\<lambda>(n, t). (n, f n t)) (named_parameters prefix m)"
proof (induction prefix m rule: named_parameters.induct)
  case (1 prefix ps bs cs)
  have eq: "map (\<lambda>x. named_parameters (prefix @ fst x @ ''.'')
                    (update_module f (prefix @ fst x @ ''.'') (snd x))) cs =
            map (\<lambda>x. map (\<lambda>a. (fst a, f (fst a) (snd a)))
                    (named_parameters (prefix @ fst x @ ''.'') (snd x))) cs"
    by (rule map_cong) (use 1 in \<open>auto simp: case_prod_unfold\<close>)
  show ?case
    by (simp add: map_concat comp_def case_prod_unfold eq)
qed

lemma adapt_Inr_parameters:
  assumes "adapt w l fo au an = Inr w'"
  shows "named_parameters [] (maml_module w') =
           map (\<lambda>(n, p). (n, adapt_parameter (maml_lr w) (override fo (maml_first_order w)) l n p))
             (named_parameters [] (maml_module w))"
  using assms
  by (auto simp: adapt_def Let_def named_parameters_update split: if_splits)

lemma adapt_parameter_skips:
  "\<not> requires_grad p \<or> l n = None \<Longrightarrow> adapt_parameter rate fo l n p = p"
  by (auto simp: adapt_parameter_def)

lemma adapt_GradientComputationError_iff:
  "adapt w l fo au an = Inl GradientComputationError \<longleftrightarrow>
     (\<exists>(n, p)\<in>set (named_parameters [] (maml_module w)). \<not> requires_grad p) \<and>
     \<not> override an (maml_allow_nograd w)"
  by (auto simp: adapt_def Let_def list_ex_iff)

lemma adapt_skipped_unchanged:
  assumes ok: "adapt w l fo au an = Inr w'"
    and i: "i < length (named_parameters [] (maml_module w))"
    and skip: "\<not> requires_grad (snd (named_parameters [] (maml_module w) ! i)) \<or>
               l (fst (named_parameters [] (maml_module w) ! i)) = None"
  shows "named_parameters [] (maml_module w') ! i = named_parameters [] (maml_module w) ! i"
proof -
  obtain n p where np: "named_parameters [] (maml_module w) ! i = (n, p)"
    by (cases "named_parameters [] (maml_module w) ! i")
  from skip np have "adapt_parameter (maml_lr w) (override fo (maml_first_order w)) l n p = p"
    by (intro adapt_parameter_skips) simp
  then show ?thesis
    using i np by (simp add: adapt_Inr_parameters [OF ok])
qed

text \<open>
  Claim C3. During \<open>adapt()\<close>, with each flag taken from the call when it is given and
  from the wrapper otherwise: \<open>adapt()\<close> fails with \<open>GradientComputationError\<close> if and only
  if some parameter has \<open>requires_grad=False\<close> and \<open>allow_nograd\<close> is not enabled; and for
  every parameter with \<open>requires_grad=False\<close>, if \<open>allow_nograd\<close> is enabled then a
  successful \<open>adapt()\<close> leaves that parameter exactly as it was, whatever the loss (no
  gradient is computed for it and no update is applied to it), and otherwise \<open>adapt()\<close>
  fails with \<open>GradientComputationError\<close>.
\<close>

theorem adapt_nograd:
  "(adapt w l fo au an = Inl GradientComputationError \<longleftrightarrow>
      (\<exists>(n, p)\<in>set (named_parameters [] (maml_module w)). \<not> requires_grad p) \<and>
      \<not> override an (maml_allow_nograd w)) \<and>
   (\<forall>i<length (named_parameters [] (maml_module w)).
      \<not> requires_grad (snd (named_parameters [] (maml_module w) ! i)) \<longrightarrow>
      (if override an (maml_allow_nograd w)
       then \<forall>w'. adapt w l fo au an = Inr w' \<longrightarrow>
              named_parameters [] (maml_module w') ! i = named_parameters [] (maml_module w) ! i
       else adapt w l fo au an = Inl GradientComputationError))"
proof (intro conjI allI impI)
  show "adapt w l fo au an = Inl GradientComputationError \<longleftrightarrow>
      (\<exists>(n, p)\<in>set (named_parameters [] (maml_module w)). \<not> requires_grad p) \<and>
      \<not> override an (maml_allow_nograd w)"
    by (rule adapt_GradientComputationError_iff)
next
  fix i
  let ?ps = "named_parameters [] (maml_module w)"
  assume i: "i < length ?ps" and frozen: "\<not> requires_grad (snd (?ps ! i))"
  show "if override an (maml_allow_nograd w)
       then \<forall>w'. adapt w l fo au an = Inr w' \<longrightarrow>
              named_parameters [] (maml_module w') ! i = ?ps ! i
       else adapt w l fo au an = Inl GradientComputationError"
  proof (cases "override an (maml_allow_nograd w)")
    case True
    then show ?thesis using i frozen by (auto intro: adapt_skipped_unchanged)
  next
    case False
    from i have "?ps ! i \<in> set ?ps" by simp
    with frozen have "\<exists>(n, p)\<in>set ?ps. \<not> requires_grad p"
      by (auto simp: case_prod_unfold)
    with False show ?thesis by (simp add: adapt_GradientComputationError_iff)
  qed
qed

lemmas scenario_defs =
  nograd_clone_def maml_clone_def MAML_def nograd_model_def test_model_def
  linear_def leaf_def activation_def clone_parameter_def detach_def override_def
  sum_of_norms_def adapt_def adapt_parameter_def descent_step_def INNER_LR_def
  Let_def

lemma nograd_clone_parameters:
  "named_parameters [] (maml_module nograd_clone) =
     [(''0.weight'', Tensor [3, 4] True None [Tensor [3, 4] True None []]),
      (''0.bias'', Tensor [2] True None [Tensor [2] True None []]),
      (''2.weight'', Tensor [0, 1] False None []),
      (''2.bias'', Tensor [-2] True None [Tensor [-2] True None []]),
      (''4.weight'', Tensor [5, 12] True None [Tensor [5, 12] True None []]),
      (''4.bias'', Tensor [1] True None [Tensor [1] True None []])]"
  by (simp add: scenario_defs)


theorem adapt_nograd_witness:
  "2 < length (named_parameters [] (maml_module nograd_clone)) \<and>
   named_parameters [] (maml_module nograd_clone) ! 2 = (''2.weight'', Tensor [0, 1] False None []) \<and>
   \<not> requires_grad (snd (named_parameters [] (maml_module nograd_clone) ! 2)) \<and>
   adapt nograd_clone sum_of_norms None None None = Inl GradientComputationError \<and>
   (\<exists>w'. adapt nograd_clone sum_of_norms None None (Some True) = Inr w' \<and>
      named_parameters [] (maml_module w') ! 2 = (''2.weight'', Tensor [0, 1] False None []) \<and>
      map (tensor_data \<circ> snd) (named_parameters [] (maml_module w')) =
        [[2994 / 1000, 3992 / 1000], [199 / 100], [0, 1], [- 199 / 100],
         [5 - 5 / 1300, 12 - 12 / 1300], [99 / 100]])"
  using adapt_nograd [of nograd_clone sum_of_norms None None None]
    adapt_nograd [of nograd_clone sum_of_norms None None "Some True"]
  by (simp add: nograd_clone_parameters)
     (simp add: scenario_defs)

lemma detach_clone_parameter: "detach (clone_parameter t) = detach t"
  by (simp add: clone_parameter_def detach_def)

lemma values_of_clone_module: "values_of (clone_module m) = values_of m"
proof (induction m rule: clone_module.induct)
  case (1 ps bs cs)
  have eq: "map (\<lambda>x. (fst x, values_of (clone_module (snd x)))) cs =
            map (\<lambda>x. (fst x, values_of (snd x))) cs"
    by (rule map_cong) (use 1 in \<open>auto simp: case_prod_unfold\<close>)
  have twice: "detach (detach t) = detach t" for t
    by (simp add: detach_def)
  show ?case
    by (simp add: comp_def case_prod_unfold detach_clone_parameter twice eq)
qed

lemma norm2_diff_self: "norm2 (map2 (-) v v) = 0"
proof -
  have "map2 (-) v v = replicate (length v) 0"
    by (induction v) auto
  then show ?thesis by (simp add: norm2_def sum_list_replicate)
qed

text \<open>
  Claim C1. For every module, every forward computation \<open>net\<close> and every input \<open>x\<close>,
  before any adaptation step: the forward output of a clone of the wrapper, whatever
  flags the clone is given, equals the forward output of the wrapped module, and the
  two are \<open>close\<close>, that is, the L2 norm of their difference is at most
  \<open>EPSILON = 1e-8\<close>.
\<close>

theorem clone_fidelity:
  "forward net (maml_clone w fo au an) x = module_forward net (maml_module w) x \<and>
   close (module_forward net (maml_module w) x) (forward net (maml_clone w fo au an) x)"
proof -
  have eq: "forward net (maml_clone w fo au an) x = module_forward net (maml_module w) x"
    by (simp add: forward_def module_forward_def maml_clone_def values_of_clone_module)
  have "close (module_forward net (maml_module w) x) (module_forward net (maml_module w) x)"
    by (simp add: close_def norm2_diff_self EPSILON_def)
  with eq show ?thesis by simp
qed

theorem clone_fidelity_witness:
  "module_forward sum_net test_model 2 = [52] \<and>
   forward sum_net (maml_clone (MAML test_model INNER_LR False False False) None None None) 2 = [52] \<and>
   close (module_forward sum_net (maml_module (MAML test_model INNER_LR False False False)) 2)
     (forward sum_net (maml_clone (MAML test_model INNER_LR False False False) None None None) 2)"
  using clone_fidelity [of sum_net "MAML test_model INNER_LR False False False" None None None 2]
  by (simp add: forward_def module_forward_def sum_net_def scenario_defs)

end
